theory Spec2Isabelle
  imports Complex_Main "HOL-Library.Log_Nat"
begin

section \<open>Numbers\<close>

text \<open>
  A TypeScript \<open>number\<close> is an IEEE 754 binary64 value. A finite one is modelled by the
  rational it denotes (the two zeros are not told apart: the program never divides by a
  number nor inspects a sign bit), the others by \<open>PosInf\<close>, \<open>NegInf\<close> and \<open>NaN\<close>.
  Every arithmetic result is rounded to the nearest binary64 value, ties to the even
  significand, as the language prescribes.
\<close>

datatype number = Num rat | PosInf | NegInf | NaN

text \<open>For \<open>0 < x\<close>, \<open>ilog2 x\<close> is the exponent \<open>e\<close> with \<open>2^e \<le> x < 2^(e+1)\<close>.\<close>

definition ilog2 :: "rat \<Rightarrow> int" where
  "ilog2 x = (if 1 \<le> x then bitlen \<lfloor>x\<rfloor> - 1 else - bitlen (\<lceil>1 / x\<rceil> - 1))"

definition round_half_even :: "rat \<Rightarrow> int" where
  "round_half_even x =
     (let f = \<lfloor>x\<rfloor>; d = x - of_int f
      in if d < 1 / 2 then f else if 1 / 2 < d then f + 1 else if even f then f else f + 1)"

text \<open>
  Rounding of an exact result to binary64: 53 significant bits, the exponent of the
  leading bit at least \<open>-1022\<close> (below that the spacing stays \<open>2^(-1074)\<close>: subnormals),
  and an infinity when the rounded magnitude reaches \<open>2^1024\<close>.
\<close>

definition round64 :: "rat \<Rightarrow> number" where
  "round64 x =
     (if x = 0 then Num 0
      else
        let e = max (ilog2 \<bar>x\<bar>) (- 1022);
            q = 2 powi (e - 52);
            y = of_int (round_half_even (x / q)) * q
        in if 2 powi 1024 \<le> \<bar>y\<bar> then (if 0 < x then PosInf else NegInf) else Num y)"

fun negate :: "number \<Rightarrow> number" where
  "negate (Num a) = Num (- a)"
| "negate PosInf = NegInf"
| "negate NegInf = PosInf"
| "negate NaN = NaN"

text \<open>The operator \<open>*\<close> on two numbers.\<close>

fun js_times :: "number \<Rightarrow> number \<Rightarrow> number" where
  "js_times NaN y = NaN"
| "js_times x NaN = NaN"
| "js_times (Num a) (Num b) = round64 (a * b)"
| "js_times (Num a) y = (if a = 0 then NaN else if 0 < a then y else negate y)"
| "js_times x (Num b) = (if b = 0 then NaN else if 0 < b then x else negate x)"
| "js_times PosInf y = y"
| "js_times NegInf y = negate y"

text \<open>
  A property read yields a value or \<open>undefined\<close> (\<open>None\<close>); as an operand of \<open>*\<close>,
  \<open>undefined\<close> converts to \<open>NaN\<close>.
\<close>

fun toNumber :: "number option \<Rightarrow> number" where
  "toNumber None = NaN"
| "toNumber (Some x) = x"

section \<open>Data model (types.ts)\<close>

record GeoPoint =
  lat :: number
  lng :: number

text \<open>
  The enum as \<open>types.ts\<close> declares it: four members, each initialised with a string.
  The first two strings end in the character U+00B2 (superscript two).
\<close>

datatype AreaUnit = SQ_METERS | SQ_FEET | ACRES | HECTARES

fun AreaUnit_value :: "AreaUnit \<Rightarrow> string" where
  "AreaUnit_value SQ_METERS = [CHR ''m'', CHR 0xB2]"
| "AreaUnit_value SQ_FEET = [CHR ''f'', CHR ''t'', CHR 0xB2]"
| "AreaUnit_value ACRES = ''acres''"
| "AreaUnit_value HECTARES = ''ha''"

text \<open>
  At run time the enum is an object from member names to members; \<open>AreaUnit.X\<close> reads
  the property \<open>X\<close> of that object, and a name the enum does not declare reads as
  \<open>undefined\<close> (\<open>None\<close>). \<open>Object.keys(AreaUnit)\<close> is the list of the declared names.
\<close>

definition AreaUnit_object :: "(string \<times> AreaUnit) list" where
  "AreaUnit_object =
     [(''SQ_METERS'', SQ_METERS), (''SQ_FEET'', SQ_FEET), (''ACRES'', ACRES),
      (''HECTARES'', HECTARES)]"

definition AreaUnit_member :: "string \<Rightarrow> AreaUnit option" where
  "AreaUnit_member name = map_of AreaUnit_object name"

section \<open>The unit tables (constants.ts)\<close>

text \<open>
  Both tables are object literals with computed keys \<open>[AreaUnit.X]\<close>. A computed key is
  converted to a property key: a member gives its string, \<open>undefined\<close> gives the string
  \<open>undefined\<close>. An object literal is evaluated entry by entry in source order, so of two
  entries with the same key the later one stays.
\<close>

fun propertyKey :: "AreaUnit option \<Rightarrow> string" where
  "propertyKey None = ''undefined''"
| "propertyKey (Some u) = AreaUnit_value u"

definition object_get :: "(string \<times> 'v) list \<Rightarrow> string \<Rightarrow> 'v option" where
  "object_get entries k = map_of (rev entries) k"

text \<open>A decimal literal denotes the binary64 value nearest to it.\<close>

definition UNIT_CONVERSIONS :: "(string \<times> number) list" where
  "UNIT_CONVERSIONS =
     [(propertyKey (AreaUnit_member ''SQ_METERS''), round64 1),
      (propertyKey (AreaUnit_member ''SQ_FEET''), round64 (107639 / 10000)),
      (propertyKey (AreaUnit_member ''ACRES''), round64 (247105 / 1000000000)),
      (propertyKey (AreaUnit_member ''HECTARES''), round64 (1 / 10000)),
      (propertyKey (AreaUnit_member ''KANAL''), round64 (197684 / 100000000)),
      (propertyKey (AreaUnit_member ''MARLA''), round64 (395369 / 10000000))]"

definition UNIT_LABELS :: "(string \<times> string) list" where
  "UNIT_LABELS =
     [(propertyKey (AreaUnit_member ''SQ_METERS''), ''Square Meters''),
      (propertyKey (AreaUnit_member ''SQ_FEET''), ''Square Feet''),
      (propertyKey (AreaUnit_member ''ACRES''), ''Acres''),
      (propertyKey (AreaUnit_member ''HECTARES''), ''Hectares''),
      (propertyKey (AreaUnit_member ''KANAL''), ''Kanal''),
      (propertyKey (AreaUnit_member ''MARLA''), ''Marla'')]"

section \<open>The component state and its handlers (App.tsx)\<close>

record app_state =
  isTracking :: bool
  path :: "GeoPoint list"
  area :: "number option"
  selectedUnit :: AreaUnit
  error :: "string option"
  watchId :: "int option"
  isGeoSupported :: bool
  currentAccuracy :: "number option"

text \<open>
  What a handler does besides setting state: the calls it makes to the browser and to
  the area calculator, in the order it makes them.
\<close>

datatype effect =
    ClearWatch int
  | WatchPosition
  | CalculatePolygonArea "GeoPoint list"
  | CreateBlob string string
  | CreateElement string
  | CreateObjectURL
  | AppendChild
  | Click string
  | RemoveChild

text \<open>
  \<open>startTracking\<close>; \<open>newId\<close> is the identifier that \<open>watchPosition\<close> returns.
\<close>

definition startTracking :: "int \<Rightarrow> app_state \<Rightarrow> effect list \<times> app_state" where
  "startTracking newId s =
     (if \<not> isGeoSupported s then ([], s)
      else ([WatchPosition],
            s\<lparr>error := None, path := [], area := None, currentAccuracy := None,
              isTracking := True, watchId := Some newId\<rparr>))"

definition not_enough_points :: string where
  "not_enough_points =
     ''Not enough points to form a shape. Please record at least 3 points by walking the perimeter.''"

text \<open>
  \<open>stopTracking\<close>; the area calculator \<open>calculatePolygonArea\<close> lives in
  \<open>services/areaCalculator\<close> and is a parameter here.
\<close>

definition stopTracking ::
  "(GeoPoint list \<Rightarrow> number) \<Rightarrow> app_state \<Rightarrow> effect list \<times> app_state" where
  "stopTracking calculatePolygonArea s =
     (let (fx, s1) = (case watchId s of
                        Some i \<Rightarrow> ([ClearWatch i], s\<lparr>watchId := None\<rparr>)
                      | None \<Rightarrow> ([], s));
          s2 = s1\<lparr>isTracking := False, currentAccuracy := None\<rparr>
      in if 2 < length (path s) then
           (fx @ [CalculatePolygonArea (path s)],
            s2\<lparr>area := Some (calculatePolygonArea (path s))\<rparr>)
         else if 0 < length (path s) then
           (fx, s2\<lparr>area := None, error := Some not_enough_points\<rparr>)
         else (fx, s2\<lparr>area := None\<rparr>))"

text \<open>
  \<open>exportToCSV\<close>; \<open>toString\<close> is the language's conversion of a number to a string,
  which a template literal applies to each coordinate.
\<close>

definition join :: "string \<Rightarrow> string list \<Rightarrow> string" where
  "join sep xs = (case xs of [] \<Rightarrow> [] | x # rest \<Rightarrow> x @ concat (map (\<lambda>y. sep @ y) rest))"

definition csv_row :: "(number \<Rightarrow> string) \<Rightarrow> GeoPoint \<Rightarrow> string" where
  "csv_row toString p = toString (lat p) @ '','' @ toString (lng p)"

definition exportToCSV :: "(number \<Rightarrow> string) \<Rightarrow> app_state \<Rightarrow> effect list" where
  "exportToCSV toString s =
     (if length (path s) = 0 then []
      else
        let header = ''Latitude,Longitude'' @ [CHR 10];
            csvContent = join [CHR 10] (map (csv_row toString) (path s))
        in [CreateBlob (header @ csvContent) ''text/csv;charset=utf-8;'',
            CreateElement ''a'', CreateObjectURL, AppendChild, Click ''walk_path.csv'',
            RemoveChild])"

text \<open>\<open>convertedArea\<close>, the memoised value shown as the result.\<close>

definition convertedArea :: "app_state \<Rightarrow> number" where
  "convertedArea s =
     (case area s of
        None \<Rightarrow> Num 0
      | Some a \<Rightarrow>
          js_times a (toNumber (object_get UNIT_CONVERSIONS (AreaUnit_value (selectedUnit s)))))"

section \<open>Reading an exported file back\<close>

text \<open>
  The reader's side of the export, used to state that the file gives the path back: the
  text is cut at every line feed, the header line is dropped, and each remaining line is
  cut at every comma into a latitude and a longitude, which \<open>parse\<close> turns into
  numbers. A line that does not have exactly two fields decodes to \<open>None\<close>.
  \<open>split_on\<close> cuts as the language's \<open>split\<close> does: the empty string gives one empty
  piece.
\<close>

fun split_on :: "char \<Rightarrow> string \<Rightarrow> string list" where
  "split_on c [] = [[]]"
| "split_on c (x # xs) =
     (if x = c then [] # split_on c xs
      else (case split_on c xs of [] \<Rightarrow> [[x]] | r # rs \<Rightarrow> (x # r) # rs))"

definition csv_decode_row :: "(string \<Rightarrow> number) \<Rightarrow> string \<Rightarrow> GeoPoint option" where
  "csv_decode_row parse row =
     (case split_on (CHR '','') row of
        [a, b] \<Rightarrow> Some \<lparr>lat = parse a, lng = parse b\<rparr>
      | _ \<Rightarrow> None)"

definition csv_decode :: "(string \<Rightarrow> number) \<Rightarrow> string \<Rightarrow> GeoPoint option list" where
  "csv_decode parse content = map (csv_decode_row parse) (tl (split_on (CHR 10) content))"

section \<open>Sample states\<close>

text \<open>The state of the component when it is first rendered (the \<open>useState\<close> defaults).\<close>

definition initial_state :: app_state where
  "initial_state =
     \<lparr>isTracking = False, path = [], area = None, selectedUnit = SQ_METERS, error = None,
      watchId = None, isGeoSupported = True, currentAccuracy = None\<rparr>"

text \<open>A walk in progress, with watch identifier 1, after the fixes \<open>ps\<close> were recorded.\<close>

definition tracking_with :: "GeoPoint list \<Rightarrow> app_state" where
  "tracking_with ps = initial_state\<lparr>isTracking := True, watchId := Some 1, path := ps\<rparr>"

definition sample_path :: "GeoPoint list" where
  "sample_path =
     [\<lparr>lat = Num 0, lng = Num 0\<rparr>, \<lparr>lat = Num 0, lng = Num 1\<rparr>,
      \<lparr>lat = Num 1, lng = Num 1\<rparr>, \<lparr>lat = Num 1, lng = Num 0\<rparr>]"

text \<open>
  A calculator that answers 0 for every path, for the concrete evaluations in which the
  calculator's answer plays no part.
\<close>

definition zero_area :: "GeoPoint list \<Rightarrow> number" where
  "zero_area ps = Num 0"

text \<open>
  The strings of the numbers 0 and 1, the only ones in \<open>sample_path\<close>, as the language
  prints them, and their reading back.
\<close>

definition sample_toString :: "number \<Rightarrow> string" where
  "sample_toString x = (if x = Num 0 then ''0'' else if x = Num 1 then ''1'' else ''NaN'')"

definition sample_parse :: "string \<Rightarrow> number" where
  "sample_parse w = (if w = ''0'' then Num 0 else if w = ''1'' then Num 1 else NaN)"

section \<open>Properties of the rounding\<close>

text \<open>\<open>ilog2\<close> is the exponent of the leading bit.\<close>

lemma ilog2_bounds:
  assumes "0 < x"
  shows "2 powi ilog2 x \<le> x \<and> x < 2 powi (ilog2 x + 1)"
proof (cases "1 \<le> x")
  case True
  define n where "n = \<lfloor>x\<rfloor>"
  have n: "1 \<le> n" "of_int n \<le> x" "x < of_int n + 1"
    using True floor_correct [of x] by (auto simp: n_def le_floor_iff)
  define k where "k = nat (bitlen n - 1)"
  have bl: "bitlen n = int k + 1"
    using n(1) bitlen_nonneg [of n] bitlen_eq_zero_iff [of n] by (simp add: k_def)
  have b: "2 ^ k \<le> n" "n < 2 ^ (Suc k)"
    using bitlen_bounds [of n] n(1) by (simp_all add: bl nat_add_distrib flip: k_def)
  have e: "ilog2 x = int k"
    using True by (simp add: ilog2_def bl flip: n_def)
  have "(2::rat) ^ k \<le> of_int n"
    using b(1) by simp
  moreover have "of_int n + 1 \<le> (2::rat) ^ Suc k"
  proof -
    have "n + 1 \<le> 2 ^ Suc k"
      using b(2) by simp
    then have "of_int (n + 1) \<le> (2::rat) ^ Suc k"
      by (simp only: of_int_le_numeral_power_cancel_iff)
    then show ?thesis
      by simp
  qed
  ultimately have "(2::rat) ^ k \<le> x" "x < (2::rat) ^ Suc k"
    using n by linarith+
  then show ?thesis
    unfolding e by (simp add: power_int_add)
next
  case False
  define m where "m = \<lceil>1 / x\<rceil>"
  have y: "1 < 1 / x"
    using False assms by simp
  have m: "2 \<le> m" "1 / x \<le> of_int m" "of_int m - 1 < 1 / x"
    using y ceiling_correct [of "1 / x"] less_ceiling_iff [of 1 "1 / x"]
    by (auto simp: m_def)
  define k where "k = nat (bitlen (m - 1) - 1)"
  have bl: "bitlen (m - 1) = int k + 1"
    using m(1) bitlen_nonneg [of "m - 1"] bitlen_eq_zero_iff [of "m - 1"] by (simp add: k_def)
  have b: "2 ^ k \<le> m - 1" "m - 1 < 2 ^ (Suc k)"
    using bitlen_bounds [of "m - 1"] m(1) by (simp_all add: bl nat_add_distrib flip: k_def)
  have e: "ilog2 x = - (int k + 1)"
    using False by (simp add: ilog2_def bl flip: m_def)
  have "(2::rat) ^ k \<le> of_int m - 1"
  proof -
    have "(2::rat) ^ k \<le> of_int (m - 1)"
      using b(1) by (simp only: numeral_power_le_of_int_cancel_iff)
    then show ?thesis
      by simp
  qed
  moreover have "of_int m \<le> (2::rat) ^ Suc k"
  proof -
    have "m \<le> 2 ^ Suc k"
      using b(2) by simp
    then show ?thesis
      by (simp only: of_int_le_numeral_power_cancel_iff)
  qed
  ultimately have "2 ^ k < 1 / x" "1 / x \<le> 2 ^ Suc k"
    using m by linarith+
  then have "x < 1 / 2 ^ k" "1 / 2 ^ Suc k \<le> x"
    using assms by (simp_all add: field_simps)
  moreover have "(2::rat) powi (- (int k + 1)) = 1 / 2 ^ Suc k"
  proof -
    have "- (int k + 1) = - int (Suc k)"
      by simp
    then show ?thesis
      by (simp only: power_int_minus_divide power_int_of_nat)
  qed
  moreover have "(2::rat) powi (- (int k + 1) + 1) = 1 / 2 ^ k"
    by (simp add: power_int_minus_divide)
  ultimately show ?thesis
    unfolding e by simp
qed

text \<open>Rounding to an integer moves a number by at most one half.\<close>

lemma round_half_even_error: "\<bar>of_int (round_half_even x) - x\<bar> \<le> 1 / 2"
proof -
  define f where "f = \<lfloor>x\<rfloor>"
  define d where "d = x - of_int f"
  have d: "0 \<le> d" "d < 1"
    using floor_correct [of x] by (auto simp: d_def f_def)
  have x: "x = of_int f + d"
    by (simp add: d_def)
  have r: "round_half_even x
        = (if d < 1 / 2 then f else if 1 / 2 < d then f + 1 else if even f then f else f + 1)"
    by (simp add: round_half_even_def Let_def d_def f_def)
  show ?thesis
    unfolding r using d by (auto simp: x)
qed

lemma abs_scaled:
  fixes q :: rat
  assumes "0 < q"
  shows "\<bar>n * q - x\<bar> = \<bar>n - x / q\<bar> * q"
proof -
  have "n * q - x = (n - x / q) * q"
    using assms by (simp add: field_simps)
  then show ?thesis
    using assms by (simp add: abs_mult)
qed

text \<open>
  A finite result of \<open>round64\<close> is within half a unit in the last place of the exact
  value.
\<close>

lemma round64_error:
  assumes "round64 x = Num y"
  shows "\<bar>y - x\<bar> \<le> 2 powi (max (ilog2 \<bar>x\<bar>) (- 1022) - 52) / 2"
proof (cases "x = 0")
  case True
  then show ?thesis
    using assms by (auto simp: round64_def)
next
  case False
  define q :: rat where "q = 2 powi (max (ilog2 \<bar>x\<bar>) (- 1022) - 52)"
  have q: "0 < q"
    by (simp add: q_def zero_less_power_int)
  have y: "y = of_int (round_half_even (x / q)) * q"
    using assms False by (auto simp: round64_def Let_def q_def split: if_splits)
  have "\<bar>y - x\<bar> = \<bar>of_int (round_half_even (x / q)) - x / q\<bar> * q"
    unfolding y using q by (rule abs_scaled)
  also have "\<dots> \<le> (1 / 2) * q"
    using q round_half_even_error [of "x / q"] by (intro mult_right_mono) auto
  finally show ?thesis
    by (simp add: q_def)
qed

text \<open>
  An exact value below \<open>2^1023\<close> in magnitude never rounds to an infinity, which
  gives a way to evaluate \<open>round64\<close> from the exponent and the rounded significand.
\<close>

lemma round64_in_range:
  assumes "x \<noteq> 0" and "ilog2 \<bar>x\<bar> < 1023"
  shows "round64 x
         = Num (of_int (round_half_even (x / 2 powi (max (ilog2 \<bar>x\<bar>) (- 1022) - 52)))
                * 2 powi (max (ilog2 \<bar>x\<bar>) (- 1022) - 52))"
proof -
  define q :: rat where "q = 2 powi (max (ilog2 \<bar>x\<bar>) (- 1022) - 52)"
  define y where "y = of_int (round_half_even (x / q)) * q"
  have q: "0 < q"
    by (simp add: q_def zero_less_power_int)
  have "\<bar>y - x\<bar> = \<bar>of_int (round_half_even (x / q)) - x / q\<bar> * q"
    unfolding y_def using q by (rule abs_scaled)
  also have "\<dots> \<le> (1 / 2) * q"
    using q round_half_even_error [of "x / q"] by (intro mult_right_mono) auto
  finally have err: "\<bar>y - x\<bar> \<le> q / 2"
    by simp
  have "q \<le> 2 powi 1023"
    unfolding q_def using assms(2) by (intro power_int_increasing) auto
  moreover have "\<bar>x\<bar> < 2 powi (ilog2 \<bar>x\<bar> + 1)"
    using ilog2_bounds [of "\<bar>x\<bar>"] assms(1) by simp
  moreover have "(2::rat) powi (ilog2 \<bar>x\<bar> + 1) \<le> 2 powi 1023"
    using assms(2) by (intro power_int_increasing) auto
  moreover have "(2::rat) powi 1024 = 2 * 2 powi 1023"
    using power_int_add_1' [of "2::rat" 1023] by simp
  ultimately have "\<bar>y\<bar> < 2 powi 1024"
    using err q by linarith
  then show ?thesis
    using assms(1) by (simp add: round64_def Let_def flip: q_def y_def)
qed

lemma round64_eval:
  assumes "x \<noteq> 0" and "ilog2 \<bar>x\<bar> = e" and "- 1022 \<le> e" and "e < 1023"
    and "round_half_even (x / 2 powi (e - 52)) = n"
    and "of_int n * 2 powi (e - 52) = y"
  shows "round64 x = Num y"
proof -
  have "max (ilog2 \<bar>x\<bar>) (- 1022) = e"
    using assms(2,3) by simp
  then show ?thesis
    using round64_in_range [of x] assms by simp
qed

text \<open>The numbers that the literals of the conversion table denote.\<close>

lemma round64_1: "round64 1 = Num 1"
proof (rule round64_eval)
  show "ilog2 \<bar>1\<bar> = 0"
    by code_simp
  show "round_half_even (1 / 2 powi (0 - 52)) = 4503599627370496"
    by code_simp
  show "rat_of_int 4503599627370496 * 2 powi (0 - 52) = 1"
    by (simp add: power_int_minus_divide)
qed simp_all

lemma round64_SQ_FEET:
  "round64 (107639 / 10000) = Num (1514884250907915 / 140737488355328)"
proof (rule round64_eval)
  show "ilog2 \<bar>107639 / 10000\<bar> = 3"
    by code_simp
  show "round_half_even (107639 / 10000 / 2 powi (3 - 52)) = 6059537003631660"
    by code_simp
  show "rat_of_int 6059537003631660 * 2 powi (3 - 52) = 1514884250907915 / 140737488355328"
    by (simp add: power_int_minus_divide)
qed simp_all

lemma round64_ACRES:
  "round64 (247105 / 1000000000) = Num (4558282694333999 / 18446744073709551616)"
proof (rule round64_eval)
  show "ilog2 \<bar>247105 / 1000000000\<bar> = - 12"
    by code_simp
  show "round_half_even (247105 / 1000000000 / 2 powi (- 12 - 52)) = 4558282694333999"
    by code_simp
  show "rat_of_int 4558282694333999 * 2 powi (- 12 - 52)
        = 4558282694333999 / 18446744073709551616"
    by (simp add: power_int_minus_divide)
qed simp_all

lemma round64_HECTARES:
  "round64 (1 / 10000) = Num (7378697629483821 / 73786976294838206464)"
proof (rule round64_eval)
  show "ilog2 \<bar>1 / 10000\<bar> = - 14"
    by code_simp
  show "round_half_even (1 / 10000 / 2 powi (- 14 - 52)) = 7378697629483821"
    by code_simp
  show "rat_of_int 7378697629483821 * 2 powi (- 14 - 52)
        = 7378697629483821 / 73786976294838206464"
    by (simp add: power_int_minus_divide)
qed simp_all

text \<open>The product of 1000 and the factor for acres.\<close>

lemma round64_1000_ACRES:
  "round64 (1000 * (4558282694333999 / 18446744073709551616))
   = Num (2225723971842773 / 9007199254740992)"
proof (rule round64_eval)
  show "ilog2 \<bar>1000 * (4558282694333999 / 18446744073709551616)\<bar> = - 3"
    by code_simp
  show "round_half_even (1000 * (4558282694333999 / 18446744073709551616) / 2 powi (- 3 - 52))
        = 8902895887371092"
    by code_simp
  show "rat_of_int 8902895887371092 * 2 powi (- 3 - 52)
        = 2225723971842773 / 9007199254740992"
    by (simp add: power_int_minus_divide)
qed simp_all

section \<open>Stopping a walk\<close>

text \<open>
  C1 (as amended). When the path has fewer than 3 points at the time the walk is stopped,
  \<open>stopTracking\<close> makes no call to \<open>calculatePolygonArea\<close> (no such call is among
  its effects, and its outcome is the same whatever the calculator is), and it leaves
  the area result \<open>null\<close>. When the path has 1 or 2 points it sets the
  "Not enough points" message; when the path is empty it reports nothing: the error
  message stays as it was.
\<close>

theorem stopTracking_few_points:
  assumes "length (path s) < 3"
  shows "(\<forall>ps. CalculatePolygonArea ps \<notin> set (fst (stopTracking calc s)))
       \<and> stopTracking calc s = stopTracking calc' s
       \<and> area (snd (stopTracking calc s)) = None
       \<and> (0 < length (path s) \<longrightarrow>
            error (snd (stopTracking calc s)) = Some not_enough_points)
       \<and> (path s = [] \<longrightarrow> error (snd (stopTracking calc s)) = error s)"
  using assms by (auto simp: stopTracking_def Let_def split: option.splits)

theorem stopTracking_few_points_witness:
  "length (path (tracking_with (take 2 sample_path))) < 3
   \<and> 0 < length (path (tracking_with (take 2 sample_path)))
   \<and> fst (stopTracking zero_area (tracking_with (take 2 sample_path))) = [ClearWatch 1]
   \<and> area (snd (stopTracking zero_area (tracking_with (take 2 sample_path)))) = None
   \<and> error (snd (stopTracking zero_area (tracking_with (take 2 sample_path))))
       = Some not_enough_points"
  using stopTracking_few_points
          [of "tracking_with (take 2 sample_path)" zero_area zero_area]
  by (simp add: tracking_with_def initial_state_def sample_path_def stopTracking_def)

text \<open>
  The claim C1 as stated also promises the report for the empty path. A walk that is
  started and stopped before any fix arrives has 0 points, fewer than 3, and after
  \<open>stopTracking\<close> no message is set.
\<close>

theorem stopTracking_empty_path_counterexample:
  "length (path (tracking_with [])) < 3
   \<and> error (snd (stopTracking zero_area (tracking_with []))) = None"
  by (simp add: tracking_with_def initial_state_def stopTracking_def)

text \<open>
  C9. Stopping with an empty path leaves the error message as it was and the area result
  \<open>null\<close>, and the only calls made are the release of the position watch. After
  \<open>stopTracking\<close> the message differs from the one before only when the path has 1 or
  2 points, and then it is the "Not enough points" message.
\<close>

theorem stopTracking_empty_path:
  "(path s = [] \<longrightarrow>
      error (snd (stopTracking calc s)) = error s
      \<and> area (snd (stopTracking calc s)) = None
      \<and> fst (stopTracking calc s) = (case watchId s of Some i \<Rightarrow> [ClearWatch i] | None \<Rightarrow> []))
   \<and> error (snd (stopTracking calc s))
       = (if length (path s) = 1 \<or> length (path s) = 2 then Some not_enough_points
          else error s)"
proof (cases "path s")
  case Nil
  then show ?thesis
    by (simp add: stopTracking_def Let_def split: option.splits)
next
  case (Cons p ps)
  then show ?thesis
    by (cases ps) (simp_all add: stopTracking_def Let_def split: option.splits)
qed

theorem stopTracking_empty_path_witness:
  "path (tracking_with []) = []
   \<and> error (snd (stopTracking zero_area (tracking_with []))) = error (tracking_with [])
   \<and> area (snd (stopTracking zero_area (tracking_with []))) = None
   \<and> fst (stopTracking zero_area (tracking_with [])) = [ClearWatch 1]"
  using stopTracking_empty_path [of "tracking_with []" zero_area]
  by (simp add: tracking_with_def initial_state_def)

section \<open>Starting a walk\<close>

text \<open>Without geolocation support \<open>startTracking\<close> does nothing at all.\<close>

lemma startTracking_unsupported:
  "\<not> isGeoSupported s \<Longrightarrow> startTracking newId s = ([], s)"
  by (simp add: startTracking_def)

text \<open>
  C6. When geolocation is supported, so that \<open>startTracking\<close> does start a walk, the
  new state has the empty path and no area result, whatever the previous walk left; it
  has no error message and no accuracy either, and tracking is on. (When geolocation is
  not supported the handler returns at its first line and no walk starts.)
\<close>

theorem startTracking_clears_walk:
  assumes "isGeoSupported s"
  shows "path (snd (startTracking newId s)) = []
       \<and> area (snd (startTracking newId s)) = None
       \<and> error (snd (startTracking newId s)) = None
       \<and> currentAccuracy (snd (startTracking newId s)) = None
       \<and> isTracking (snd (startTracking newId s))"
  using assms by (simp add: startTracking_def)

theorem startTracking_clears_walk_witness:
  "isGeoSupported (snd (stopTracking zero_area (tracking_with sample_path)))
   \<and> path (snd (stopTracking zero_area (tracking_with sample_path))) = sample_path
   \<and> area (snd (stopTracking zero_area (tracking_with sample_path))) = Some (Num 0)
   \<and> path (snd (startTracking 2 (snd (stopTracking zero_area (tracking_with sample_path))))) = []
   \<and> area (snd (startTracking 2 (snd (stopTracking zero_area (tracking_with sample_path)))))
       = None"
  using startTracking_clears_walk
          [of "snd (stopTracking zero_area (tracking_with sample_path))" 2]
  by (simp add: tracking_with_def initial_state_def sample_path_def stopTracking_def
        zero_area_def)

text \<open>
  C8. \<open>startTracking\<close> never changes the selected unit: the fields it writes are the
  error, the path, the area, the accuracy, the tracking flag and the watch identifier,
  so the state after it is the state before it with (at most) those six fields
  replaced; once those six are overwritten with the same values in both, the two
  states are equal.
\<close>

theorem startTracking_keeps_unit:
  "selectedUnit (snd (startTracking newId s)) = selectedUnit s
   \<and> isGeoSupported (snd (startTracking newId s)) = isGeoSupported s
   \<and> (snd (startTracking newId s))
         \<lparr>error := e, path := p, area := a, currentAccuracy := c, isTracking := t,
          watchId := w\<rparr>
       = s\<lparr>error := e, path := p, area := a, currentAccuracy := c, isTracking := t,
           watchId := w\<rparr>"
  by (simp add: startTracking_def)

section \<open>Exporting the path\<close>

text \<open>Cutting a joined text at the separator gives the pieces back.\<close>

lemma split_on_free: "c \<notin> set x \<Longrightarrow> split_on c x = [x]"
  by (induction x) auto

lemma split_on_append: "c \<notin> set x \<Longrightarrow> split_on c (x @ c # rest) = x # split_on c rest"
  by (induction x) auto

lemma join_Cons_Cons: "join sep (x # y # ys) = x @ sep @ join sep (y # ys)"
  by (simp add: join_def)

lemma join_single: "join sep [x] = x"
  by (simp add: join_def)

lemma split_on_join:
  "xs \<noteq> [] \<Longrightarrow> \<forall>x \<in> set xs. c \<notin> set x \<Longrightarrow> split_on c (join [c] xs) = xs"
proof (induction xs rule: induct_list012)
  case 1
  then show ?case by simp
next
  case (2 x)
  then show ?case by (simp add: join_single split_on_free)
next
  case (3 x y zs)
  then show ?case by (simp add: join_Cons_Cons split_on_append)
qed

lemma header_join:
  "rows \<noteq> [] \<Longrightarrow> (h @ [c]) @ join [c] rows = join [c] (h # rows)"
  by (cases rows) (simp_all add: join_def)

lemma csv_decode_row_csv_row:
  assumes "parse (toString (lat p)) = lat p" "parse (toString (lng p)) = lng p"
    and "CHR '','' \<notin> set (toString (lat p))" "CHR '','' \<notin> set (toString (lng p))"
  shows "csv_decode_row parse (csv_row toString p) = Some p"
  using assms
  by (simp add: csv_decode_row_def csv_row_def split_on_append split_on_free)

text \<open>
  C5. For a non-empty path the export makes one file, \<open>walk_path.csv\<close>, whose lines
  are exactly the header \<open>Latitude,Longitude\<close> followed by one row per point, in path
  order, each row the point's latitude, a comma, and its longitude, both as the
  language prints a number (nothing is rounded or cut by the export itself). The
  language's printing of a number gives a string without comma or line feed from which
  the same number is read back; taking that for the coordinates of the path, the file
  decodes to the path itself: every point, in order, with both coordinates exact.
\<close>

theorem exportToCSV_round_trip:
  assumes "path s \<noteq> []"
    and "\<forall>p \<in> set (path s). \<forall>x \<in> {lat p, lng p}.
           parse (toString x) = x \<and> CHR '','' \<notin> set (toString x) \<and> CHR 10 \<notin> set (toString x)"
  shows "\<exists>content.
           exportToCSV toString s
           = [CreateBlob content ''text/csv;charset=utf-8;'', CreateElement ''a'',
              CreateObjectURL, AppendChild, Click ''walk_path.csv'', RemoveChild]
         \<and> split_on (CHR 10) content
           = ''Latitude,Longitude''
             # map (\<lambda>p. toString (lat p) @ '','' @ toString (lng p)) (path s)
         \<and> csv_decode parse content = map Some (path s)"
proof -
  let ?rows = "map (csv_row toString) (path s)"
  let ?content = "(''Latitude,Longitude'' @ [CHR 10]) @ join [CHR 10] ?rows"
  have rows: "?rows \<noteq> []"
    using assms(1) by simp
  have content: "?content = join [CHR 10] (''Latitude,Longitude'' # ?rows)"
    using rows by (rule header_join)
  have free: "\<forall>x \<in> set (''Latitude,Longitude'' # ?rows). CHR 10 \<notin> set x"
    using assms(2) by (auto simp: csv_row_def)
  have lines: "split_on (CHR 10) ?content = ''Latitude,Longitude'' # ?rows"
    unfolding content using free by (intro split_on_join) simp_all
  have decode: "map (csv_decode_row parse) ?rows = map Some (path s)"
    using assms(2) by (simp add: csv_decode_row_csv_row)
  have "exportToCSV toString s
        = [CreateBlob ?content ''text/csv;charset=utf-8;'', CreateElement ''a'',
           CreateObjectURL, AppendChild, Click ''walk_path.csv'', RemoveChild]"
    using assms(1) by (simp add: exportToCSV_def Let_def)
  moreover have "split_on (CHR 10) ?content
        = ''Latitude,Longitude''
          # map (\<lambda>p. toString (lat p) @ '','' @ toString (lng p)) (path s)"
    using lines by (simp add: csv_row_def)
  moreover have "csv_decode parse ?content = map Some (path s)"
    using lines decode by (simp add: csv_decode_def)
  ultimately show ?thesis by blast
qed

theorem exportToCSV_round_trip_witness:
  "path (tracking_with sample_path) \<noteq> []
   \<and> exportToCSV sample_toString (tracking_with sample_path)
     = [CreateBlob (''Latitude,Longitude'' @ [CHR 10] @ ''0,0'' @ [CHR 10] @ ''0,1''
                    @ [CHR 10] @ ''1,1'' @ [CHR 10] @ ''1,0'')
          ''text/csv;charset=utf-8;'',
        CreateElement ''a'', CreateObjectURL, AppendChild, Click ''walk_path.csv'',
        RemoveChild]
   \<and> csv_decode sample_parse
       (''Latitude,Longitude'' @ [CHR 10] @ ''0,0'' @ [CHR 10] @ ''0,1''
        @ [CHR 10] @ ''1,1'' @ [CHR 10] @ ''1,0'')
     = map Some sample_path"
  using exportToCSV_round_trip [of "tracking_with sample_path" sample_parse sample_toString]
  by (simp add: tracking_with_def initial_state_def sample_path_def sample_toString_def
        sample_parse_def exportToCSV_def join_def csv_row_def)

text \<open>
  C10. With an empty path the export returns at its first line: it makes no call at
  all (no blob, no link, no download) and, like every call of it, sets no state.
\<close>

theorem exportToCSV_empty_path:
  assumes "path s = []"
  shows "exportToCSV toString s = []"
  using assms by (simp add: exportToCSV_def)

theorem exportToCSV_empty_path_witness:
  "path initial_state = [] \<and> exportToCSV sample_toString initial_state = []"
  using exportToCSV_empty_path [of initial_state sample_toString]
  by (simp add: initial_state_def)

section \<open>The unit tables and the conversion\<close>

lemma AreaUnit_member_simps:
  "AreaUnit_member ''SQ_METERS'' = Some SQ_METERS"
  "AreaUnit_member ''SQ_FEET'' = Some SQ_FEET"
  "AreaUnit_member ''ACRES'' = Some ACRES"
  "AreaUnit_member ''HECTARES'' = Some HECTARES"
  "AreaUnit_member ''KANAL'' = None"
  "AreaUnit_member ''MARLA'' = None"
  by (simp_all add: AreaUnit_member_def AreaUnit_object_def)

lemma UNIT_CONVERSIONS_get:
  "object_get UNIT_CONVERSIONS (AreaUnit_value u)
   = Some (case u of
             SQ_METERS \<Rightarrow> round64 1
           | SQ_FEET \<Rightarrow> round64 (107639 / 10000)
           | ACRES \<Rightarrow> round64 (247105 / 1000000000)
           | HECTARES \<Rightarrow> round64 (1 / 10000))"
  by (cases u) (simp_all add: object_get_def UNIT_CONVERSIONS_def AreaUnit_member_simps)

lemma UNIT_LABELS_get:
  "object_get UNIT_LABELS (AreaUnit_value u)
   = Some (case u of
             SQ_METERS \<Rightarrow> ''Square Meters''
           | SQ_FEET \<Rightarrow> ''Square Feet''
           | ACRES \<Rightarrow> ''Acres''
           | HECTARES \<Rightarrow> ''Hectares'')"
  by (cases u) (simp_all add: object_get_def UNIT_LABELS_def AreaUnit_member_simps)

text \<open>
  The four declared members have distinct strings, and each has a factor and a label.
\<close>

lemma AreaUnit_value_inj: "AreaUnit_value u = AreaUnit_value v \<longleftrightarrow> u = v"
  by (cases u; cases v) simp_all

lemma unit_tables_total_on_declared:
  "\<exists>f l. object_get UNIT_CONVERSIONS (AreaUnit_value u) = Some f
         \<and> object_get UNIT_LABELS (AreaUnit_value u) = Some l"
  by (simp add: UNIT_CONVERSIONS_get UNIT_LABELS_get)

text \<open>
  C2. The tables name six units, but the enum declares four. \<open>AreaUnit.KANAL\<close> and
  \<open>AreaUnit.MARLA\<close> read as \<open>undefined\<close>, so the entries written for kanal and marla
  both land on the key \<open>undefined\<close>, where the later (marla) replaces the earlier
  (kanal): a lookup with \<open>AreaUnit.KANAL\<close> answers marla's factor and marla's label,
  and the label table holds five labels, none of them kanal's.
\<close>

theorem unit_tables_at_kanal_marla:
  "AreaUnit_member ''KANAL'' = None
   \<and> AreaUnit_member ''MARLA'' = None
   \<and> map fst UNIT_CONVERSIONS
     = [AreaUnit_value SQ_METERS, AreaUnit_value SQ_FEET, AreaUnit_value ACRES,
        AreaUnit_value HECTARES, ''undefined'', ''undefined'']
   \<and> map fst UNIT_LABELS = map fst UNIT_CONVERSIONS
   \<and> object_get UNIT_CONVERSIONS (propertyKey (AreaUnit_member ''KANAL''))
     = Some (round64 (395369 / 10000000))
   \<and> object_get UNIT_LABELS (propertyKey (AreaUnit_member ''KANAL'')) = Some ''Marla''
   \<and> map (object_get UNIT_LABELS) (remdups (map fst UNIT_LABELS))
     = [Some ''Square Meters'', Some ''Square Feet'', Some ''Acres'', Some ''Hectares'',
        Some ''Marla'']"
  by (simp add: AreaUnit_member_simps UNIT_CONVERSIONS_def UNIT_LABELS_def object_get_def)

text \<open>
  C3. For every area \<open>x\<close> and every unit of the enum, the converted area is the
  product, by the language's \<open>*\<close>, of \<open>x\<close> and the number written for that unit in
  \<open>UNIT_CONVERSIONS\<close>; nothing else is applied to it. For a finite area \<open>a\<close> this is
  the exact product of \<open>a\<close> and the factor's binary64 value, rounded once to binary64
  as every product of the language is.
\<close>

theorem convertedArea_is_product:
  "convertedArea (s\<lparr>area := Some x, selectedUnit := u\<rparr>)
   = js_times x (case u of
                   SQ_METERS \<Rightarrow> round64 1
                 | SQ_FEET \<Rightarrow> round64 (107639 / 10000)
                 | ACRES \<Rightarrow> round64 (247105 / 1000000000)
                 | HECTARES \<Rightarrow> round64 (1 / 10000))
   \<and> convertedArea (s\<lparr>area := Some (Num a), selectedUnit := u\<rparr>)
     = round64 (a * (case u of
                       SQ_METERS \<Rightarrow> 1
                     | SQ_FEET \<Rightarrow> 1514884250907915 / 140737488355328
                     | ACRES \<Rightarrow> 4558282694333999 / 18446744073709551616
                     | HECTARES \<Rightarrow> 7378697629483821 / 73786976294838206464))"
proof
  show "convertedArea (s\<lparr>area := Some x, selectedUnit := u\<rparr>)
        = js_times x (case u of
                        SQ_METERS \<Rightarrow> round64 1
                      | SQ_FEET \<Rightarrow> round64 (107639 / 10000)
                      | ACRES \<Rightarrow> round64 (247105 / 1000000000)
                      | HECTARES \<Rightarrow> round64 (1 / 10000))"
    by (simp add: convertedArea_def UNIT_CONVERSIONS_get)
  have "toNumber (object_get UNIT_CONVERSIONS (AreaUnit_value u))
        = Num (case u of
                 SQ_METERS \<Rightarrow> 1
               | SQ_FEET \<Rightarrow> 1514884250907915 / 140737488355328
               | ACRES \<Rightarrow> 4558282694333999 / 18446744073709551616
               | HECTARES \<Rightarrow> 7378697629483821 / 73786976294838206464)"
    by (cases u)
      (simp_all only: UNIT_CONVERSIONS_get AreaUnit.case toNumber.simps round64_1
        round64_SQ_FEET round64_ACRES round64_HECTARES)
  then show "convertedArea (s\<lparr>area := Some (Num a), selectedUnit := u\<rparr>)
        = round64 (a * (case u of
                          SQ_METERS \<Rightarrow> 1
                        | SQ_FEET \<Rightarrow> 1514884250907915 / 140737488355328
                        | ACRES \<Rightarrow> 4558282694333999 / 18446744073709551616
                        | HECTARES \<Rightarrow> 7378697629483821 / 73786976294838206464))"
    by (simp add: convertedArea_def)
qed

text \<open>
  C7. 1000 square meters in acres: the table's factor is the binary64 number nearest to
  0.000247105, the product is rounded once more to binary64, and the result,
  0.24710500000000002, is within a relative error of \<open>2^(-52)\<close> of 0.247105.
\<close>

theorem convertedArea_1000_acres:
  "convertedArea (s\<lparr>area := Some (Num 1000), selectedUnit := ACRES\<rparr>)
   = Num (2225723971842773 / 9007199254740992)
   \<and> \<bar>2225723971842773 / 9007199254740992 - 247105 / 1000000 :: rat\<bar>
       \<le> (247105 / 1000000) / 2 ^ 52"
proof
  show "convertedArea (s\<lparr>area := Some (Num 1000), selectedUnit := ACRES\<rparr>)
        = Num (2225723971842773 / 9007199254740992)"
  proof -
    have "convertedArea (s\<lparr>area := Some (Num 1000), selectedUnit := ACRES\<rparr>)
          = js_times (Num 1000)
              (toNumber (object_get UNIT_CONVERSIONS (AreaUnit_value ACRES)))"
      by (simp add: convertedArea_def)
    also have "\<dots> = js_times (Num 1000) (Num (4558282694333999 / 18446744073709551616))"
      by (simp only: UNIT_CONVERSIONS_get AreaUnit.case round64_ACRES toNumber.simps)
    also have "\<dots> = round64 (1000 * (4558282694333999 / 18446744073709551616))"
      by (simp only: js_times.simps)
    also have "\<dots> = Num (2225723971842773 / 9007199254740992)"
      by (rule round64_1000_ACRES)
    finally show ?thesis .
  qed
  show "\<bar>2225723971842773 / 9007199254740992 - 247105 / 1000000 :: rat\<bar>
        \<le> (247105 / 1000000) / 2 ^ 52"
    by simp
qed

end
